theory Spec2Isabelle
  imports Complex_Main
begin

section \<open>The add-expense screen of SplitBuddy\<close>

text \<open>
  The development embeds \<^verbatim>\<open>src/screens/Expenses/AddExpenseScreen.tsx\<close>: the state
  the component keeps with \<^verbatim>\<open>useState\<close>, the two loaders that run in its effects
  (\<^verbatim>\<open>loadGroups\<close>, \<^verbatim>\<open>loadSettings\<close>) and the submit handler
  \<^verbatim>\<open>handleAddExpense\<close>.

  A handler of a React component reads the state of the render it was created in and
  requests updates with the setters; the next render sees all of them. Each operation is
  therefore a function from the state before the call to the state after it, together
  with the list of actions it handed to the store's \<^verbatim>\<open>dispatch\<close>, in call order.
\<close>

subsection \<open>Data\<close>

text \<open>
  A selectable option \<^verbatim>\<open>{ id: string; name: string }\<close>. Groups, categories and payment
  methods of the services are richer objects with at least these two fields: they are
  values of the extensible record type \<open>'a item_scheme\<close>, and \<open>project\<close> is the arrow
  function \<^verbatim>\<open>x => ({ id: x.id, name: x.name })\<close> of the three \<^verbatim>\<open>map\<close> calls.
\<close>

record item =
  item_id :: string
  item_name :: string

definition project :: "'a item_scheme \<Rightarrow> item" where
  "project x = \<lparr>item_id = item_id x, item_name = item_name x\<rparr>"

text \<open>
  A JavaScript number as \<^verbatim>\<open>parseFloat\<close> returns it: not-a-number, an infinity, or a
  finite value.
\<close>

datatype number = NaN | PosInfinity | NegInfinity | Finite rat

text \<open>
  A \<^verbatim>\<open>Date\<close> object holds a time value in milliseconds, or it is the Invalid Date
  (its time value is not a number). The type \<^verbatim>\<open>Date | undefined\<close> of \<^verbatim>\<open>selectedDate\<close>
  admits both. \<^verbatim>\<open>new Date()\<close> reads the clock and always holds a time value.
\<close>

type_synonym instant = int

datatype date = Date instant | InvalidDate

text \<open>What a call can throw: \<^verbatim>\<open>toISOString\<close> on the Invalid Date throws a RangeError.\<close>

datatype error = RangeError

text \<open>The \<^verbatim>\<open>Expense\<close> object built at lines 84 to 92.\<close>

record expense =
  expense_id :: string
  expense_amount :: number
  expense_category :: string
  expense_description :: string
  expense_date :: string
  expense_paymentMethod :: string
  expense_group :: string

text \<open>
  The actions the screen dispatches: \<^verbatim>\<open>addExpense(newExpense)\<close> and
  \<^verbatim>\<open>showToast({ message, type })\<close>.
\<close>

datatype action = AddExpense expense | ShowToast string string

text \<open>The twelve state variables of the component, lines 17 to 28.\<close>

record screen =
  amount :: string
  category :: "string list"
  description :: string
  selectedDate :: "date option"
  paymentMethod :: "string list"
  group :: "string list"
  availableGroups :: "item list"
  availableCategories :: "item list"
  availablePaymentMethods :: "item list"
  feedbackMessage :: string
  isSnackbarVisible :: bool
  snackbarSuccess :: bool

text \<open>The initial values given to \<^verbatim>\<open>useState\<close>.\<close>

definition initialScreen :: screen where
  "initialScreen =
     \<lparr>amount = [], category = [], description = [], selectedDate = None,
      paymentMethod = [], group = [],
      availableGroups = [], availableCategories = [], availablePaymentMethods = [],
      feedbackMessage = [], isSnackbarVisible = False, snackbarSuccess = True\<rparr>"

subsection \<open>The identifier generator\<close>

text \<open>
  Modelled from the spec: \<^verbatim>\<open>generateUUID\<close> is imported from \<^verbatim>\<open>@utils/common\<close>, which
  is not part of the sources at hand. The specification gives its contract and leaves
  the algorithm open: it "produces a string unique across all expense records", a
  "non-empty unique id". A generator is therefore any function that, whatever the
  identifiers of the existing expense records are, returns a non-empty string that is
  none of them.
\<close>

typedef uuid_gen = "{g :: string list \<Rightarrow> string. \<forall>ids. g ids \<noteq> [] \<and> g ids \<notin> set ids}"
proof
  show "(\<lambda>ids. CHR ''0'' # concat ids) \<in> {g. \<forall>ids. g ids \<noteq> [] \<and> g ids \<notin> set ids}"
  proof (clarify, intro allI conjI)
    fix ids :: "string list"
    show "CHR ''0'' # concat ids \<noteq> []"
      by simp
    show "CHR ''0'' # concat ids \<notin> set ids"
    proof
      assume "CHR ''0'' # concat ids \<in> set ids"
      then have "length (CHR ''0'' # concat ids) \<in> set (map length ids)"
        by (metis image_eqI set_map)
      then have "length (CHR ''0'' # concat ids) \<le> sum_list (map length ids)"
        by (simp add: member_le_sum_list)
      then show False
        by (simp add: length_concat)
    qed
  qed
qed

text \<open>
  One generator, used where a concrete one is needed: a zero followed by all existing
  identifiers.
\<close>

definition sampleUUID :: uuid_gen where
  "sampleUUID = Abs_uuid_gen (\<lambda>ids. CHR ''0'' # concat ids)"

subsection \<open>The environment\<close>

text \<open>
  What the screen calls and does not define: the built-in \<^verbatim>\<open>parseFloat\<close>; the string
  that \<^verbatim>\<open>Date.prototype.toISOString\<close> gives for a time value; the identifier generator;
  the expense records that the store holds when the handler runs; the time value that
  \<^verbatim>\<open>new Date()\<close> reads from the clock; and whether the store's \<^verbatim>\<open>dispatch\<close> throws
  on a given action. Every theorem below holds for every such environment.
\<close>

record env =
  parseFloat :: "string \<Rightarrow> number"
  toISOString :: "instant \<Rightarrow> string"
  generateUUID :: uuid_gen
  expenses :: "expense list"
  newDate :: instant
  dispatchThrows :: "action \<Rightarrow> bool"

text \<open>
  The method call \<^verbatim>\<open>d.toISOString()\<close>: the ISO string of the time value, or a
  RangeError on the Invalid Date.
\<close>

definition Date_toISOString :: "env \<Rightarrow> date \<Rightarrow> error + string" where
  "Date_toISOString e d =
     (case d of Date t \<Rightarrow> Inr (toISOString e t) | InvalidDate \<Rightarrow> Inl RangeError)"

text \<open>
  The call \<^verbatim>\<open>generateUUID()\<close> of line 82, made while the store holds the records
  \<open>expenses e\<close>.
\<close>

definition newId :: "env \<Rightarrow> string" where
  "newId e = Rep_uuid_gen (generateUUID e) (map expense_id (expenses e))"

subsection \<open>Feedback\<close>

text \<open>\<^verbatim>\<open>showFeedback\<close>, lines 117 to 121.\<close>

definition showFeedback :: "string \<Rightarrow> bool \<Rightarrow> screen \<Rightarrow> screen" where
  "showFeedback message success s =
     s\<lparr>feedbackMessage := message, snackbarSuccess := success, isSnackbarVisible := True\<rparr>"

text \<open>\<^verbatim>\<open>handleSnackbarDismiss\<close>, lines 123 to 125.\<close>

definition handleSnackbarDismiss :: "screen \<Rightarrow> screen" where
  "handleSnackbarDismiss s = s\<lparr>isSnackbarVisible := False\<rparr>"

text \<open>\<^verbatim>\<open>handleDateConfirm\<close>, lines 109 to 111.\<close>

definition handleDateConfirm :: "date \<Rightarrow> screen \<Rightarrow> screen" where
  "handleDateConfirm d s = s\<lparr>selectedDate := Some d\<rparr>"

subsection \<open>Loading the groups\<close>

text \<open>
  \<^verbatim>\<open>loadGroups\<close>, lines 33 to 45. Its argument is the outcome of
  \<^verbatim>\<open>await ExpenseService.getGroups()\<close>: \<open>Inl\<close> when the promise is rejected, \<open>Inr\<close> with
  the groups when it is fulfilled.
\<close>

definition loadGroups :: "'e + 'a item_scheme list \<Rightarrow> screen \<Rightarrow> screen \<times> action list" where
  "loadGroups fetched s =
     (case fetched of
        Inl error \<Rightarrow> (s, [ShowToast ''Failed to load groups'' ''error''])
      | Inr groups \<Rightarrow>
          (let groupList = map project groups;
               s1 = s\<lparr>availableGroups := groupList\<rparr>
           in if length groupList > 0
              then (s1\<lparr>group := [item_id (groupList ! 0)]\<rparr>, [])
              else (s1, [])))"

subsection \<open>Loading the visible categories and payment methods\<close>

text \<open>
  A visibility mapping is the object that \<^verbatim>\<open>SettingsService.getVisibleCategories()\<close>
  (or \<^verbatim>\<open>getVisiblePaymentMethods\<close>) resolves to: a plain object whose own keys are
  identifiers and whose own values are booleans.
\<close>

type_synonym visibility = "string \<rightharpoonup> bool"

text \<open>
  The members that every plain object inherits from \<^verbatim>\<open>Object.prototype\<close>. Each is a
  function, or for \<^verbatim>\<open>__proto__\<close> the prototype object, and so is truthy.
\<close>

definition objectPrototypeMembers :: "string list" where
  "objectPrototypeMembers =
     [''constructor'', ''hasOwnProperty'', ''isPrototypeOf'', ''propertyIsEnumerable'',
      ''toLocaleString'', ''toString'', ''valueOf'', ''__proto__'',
      ''__defineGetter__'', ''__defineSetter__'', ''__lookupGetter__'',
      ''__lookupSetter__'']"

text \<open>
  The test \<^verbatim>\<open>visible[x.id]\<close> of lines 56 and 63. An own key gives its boolean. A key
  that the object does not have is looked up along the prototype chain: it gives an
  inherited member, which is truthy, when it names one, and \<^verbatim>\<open>undefined\<close>, which is
  falsy, otherwise.
\<close>

definition isVisible :: "visibility \<Rightarrow> string \<Rightarrow> bool" where
  "isVisible visible k =
     (case visible k of
        Some b \<Rightarrow> b
      | None \<Rightarrow> k \<in> set objectPrototypeMembers)"

text \<open>
  \<^verbatim>\<open>loadSettings\<close>, lines 52 to 70. The master lists \<^verbatim>\<open>availableCategoriesList\<close> and
  \<^verbatim>\<open>availablePaymentMethodsList\<close> are imported constants and so are parameters here.
  The last two arguments are the outcomes of the two awaited fetches; the second fetch
  is started only when the first one was fulfilled, and \<^verbatim>\<open>setAvailableCategories\<close> has
  been called by then.
\<close>

definition loadSettings ::
  "'a item_scheme list \<Rightarrow> 'b item_scheme list \<Rightarrow> 'e + visibility \<Rightarrow> 'e + visibility \<Rightarrow>
   screen \<Rightarrow> screen \<times> action list" where
  "loadSettings availableCategoriesList availablePaymentMethodsList
                fetchedCategories fetchedPaymentMethods s =
     (case fetchedCategories of
        Inl error \<Rightarrow> (s, [ShowToast ''Failed to load settings'' ''error''])
      | Inr visibleCategories \<Rightarrow>
          (let categoriesList =
                 map project
                   (filter (\<lambda>category. isVisible visibleCategories (item_id category))
                      availableCategoriesList);
               s1 = s\<lparr>availableCategories := categoriesList\<rparr>
           in case fetchedPaymentMethods of
                Inl error \<Rightarrow> (s1, [ShowToast ''Failed to load settings'' ''error''])
              | Inr visiblePaymentMethods \<Rightarrow>
                  (let paymentMethodsList =
                         map project
                           (filter (\<lambda>method. isVisible visiblePaymentMethods (item_id method))
                              availablePaymentMethodsList)
                   in (s1\<lparr>availablePaymentMethods := paymentMethodsList\<rparr>, []))))"

subsection \<open>Submitting\<close>

text \<open>
  The guard of line 77. An empty JavaScript string is falsy and every other string is
  truthy.
\<close>

definition incomplete :: "screen \<Rightarrow> bool" where
  "incomplete s \<longleftrightarrow>
     amount s = [] \<or> length (category s) = 0 \<or> description s = [] \<or>
     length (paymentMethod s) = 0 \<or> length (group s) = 0"

text \<open>
  Lines 82 to 92: the identifier and the object literal. A \<^verbatim>\<open>Date\<close> object is truthy,
  the Invalid Date too, so \<^verbatim>\<open>selectedDate || new Date()\<close> is the picked date when there
  is one. The call of \<^verbatim>\<open>toISOString\<close> on it stands outside the \<^verbatim>\<open>try\<close> block of lines
  94 to 106: when it throws, no object is built and the error leaves the handler.
\<close>

definition newExpense :: "env \<Rightarrow> screen \<Rightarrow> error + expense" where
  "newExpense e s =
     (let ident = newId e
      in case Date_toISOString e
                (case selectedDate s of None \<Rightarrow> Date (newDate e) | Some d \<Rightarrow> d) of
           Inl err \<Rightarrow> Inl err
         | Inr isoString \<Rightarrow>
             Inr \<lparr>expense_id = ident,
                  expense_amount = parseFloat e (amount s),
                  expense_category = category s ! 0,
                  expense_description = description s,
                  expense_date = isoString,
                  expense_paymentMethod = paymentMethod s ! 0,
                  expense_group = group s ! 0\<rparr>)"

text \<open>The six setter calls of lines 98 to 103.\<close>

definition resetForm :: "screen \<Rightarrow> screen" where
  "resetForm s =
     s\<lparr>amount := [], category := [], description := [], selectedDate := None,
       paymentMethod := [],
       group := (if length (availableGroups s) > 0
                 then [item_id (availableGroups s ! 0)] else [])\<rparr>"

text \<open>
  What a call of the handler leaves behind: the state that the next render sees, the
  actions handed to \<^verbatim>\<open>dispatch\<close>, and the error that left the handler, if one did.
\<close>

record outcome =
  after :: screen
  dispatched :: "action list"
  thrown :: "error option"

text \<open>
  \<^verbatim>\<open>handleAddExpense\<close>, lines 76 to 107. An error at line 89 leaves the handler
  before any setter or \<^verbatim>\<open>dispatch\<close> was called. When \<^verbatim>\<open>dispatch\<close> throws, control
  leaves the \<^verbatim>\<open>try\<close> block before \<^verbatim>\<open>showFeedback\<close> and the setters of lines 96 to 103
  run, and the \<^verbatim>\<open>catch\<close> block handles the error.
\<close>

definition handleAddExpense :: "env \<Rightarrow> screen \<Rightarrow> outcome" where
  "handleAddExpense e s =
     (if incomplete s
      then \<lparr>after = showFeedback ''Please fill out all fields'' False s,
            dispatched = [], thrown = None\<rparr>
      else
        (case newExpense e s of
           Inl err \<Rightarrow> \<lparr>after = s, dispatched = [], thrown = Some err\<rparr>
         | Inr x \<Rightarrow>
             (let act = AddExpense x
              in if dispatchThrows e act
                 then \<lparr>after = showFeedback ''Failed to add expense'' False s,
                       dispatched = [act], thrown = None\<rparr>
                 else \<lparr>after = resetForm (showFeedback ''Expense added successfully'' True s),
                       dispatched = [act], thrown = None\<rparr>)))"

subsection \<open>The visibility rule in the specification's words\<close>

text \<open>
  Section 4.1 of the specification describes the list that \<^verbatim>\<open>loadSettings\<close> stores:
  the master list is walked in order; an entry whose flag in the mapping is true is
  kept, as the pair of its id and its name; an entry whose flag is false is dropped; an
  entry that the mapping omits is dropped as well. This definition follows that wording
  and is compared with the \<^verbatim>\<open>filter\<close> and \<^verbatim>\<open>map\<close> calls of the source below.
\<close>

primrec spec_visible :: "visibility \<Rightarrow> 'a item_scheme list \<Rightarrow> item list" where
  "spec_visible m [] = []"
| "spec_visible m (x # xs) =
     (case m (item_id x) of
        Some True \<Rightarrow> \<lparr>item_id = item_id x, item_name = item_name x\<rparr> # spec_visible m xs
      | Some False \<Rightarrow> spec_visible m xs
      | None \<Rightarrow> spec_visible m xs)"

section \<open>Properties\<close>

subsection \<open>The identifier generator\<close>

lemma Rep_sampleUUID: "Rep_uuid_gen sampleUUID ids = CHR ''0'' # concat ids"
proof -
  have "CHR ''0'' # concat xs \<notin> set xs" for xs :: "string list"
  proof
    assume "CHR ''0'' # concat xs \<in> set xs"
    then have "length (CHR ''0'' # concat xs) \<in> set (map length xs)"
      by (metis image_eqI set_map)
    then have "length (CHR ''0'' # concat xs) \<le> sum_list (map length xs)"
      by (simp add: member_le_sum_list)
    then show False
      by (simp add: length_concat)
  qed
  then have "(\<lambda>ids. CHR ''0'' # concat ids) \<in> {g. \<forall>ids. g ids \<noteq> [] \<and> g ids \<notin> set ids}"
    by simp
  then show ?thesis
    by (simp add: sampleUUID_def Abs_uuid_gen_inverse)
qed

lemma newId_fresh: "newId e \<noteq> [] \<and> newId e \<notin> expense_id ` set (expenses e)"
proof -
  have "\<forall>ids. Rep_uuid_gen (generateUUID e) ids \<noteq> [] \<and>
          Rep_uuid_gen (generateUUID e) ids \<notin> set ids"
    using Rep_uuid_gen [of "generateUUID e"] by simp
  then have "Rep_uuid_gen (generateUUID e) (map expense_id (expenses e)) \<noteq> [] \<and>
      Rep_uuid_gen (generateUUID e) (map expense_id (expenses e)) \<notin>
        set (map expense_id (expenses e))"
    by (rule spec)
  then show ?thesis
    by (simp add: newId_def)
qed

subsection \<open>The four ways a submission ends\<close>

lemma complete_not_incomplete:
  "amount s \<noteq> [] \<Longrightarrow> category s \<noteq> [] \<Longrightarrow> description s \<noteq> [] \<Longrightarrow>
   paymentMethod s \<noteq> [] \<Longrightarrow> group s \<noteq> [] \<Longrightarrow> \<not> incomplete s"
  by (simp add: incomplete_def)

lemma handleAddExpense_incomplete:
  "incomplete s \<Longrightarrow>
   handleAddExpense e s =
     \<lparr>after = showFeedback ''Please fill out all fields'' False s,
      dispatched = [], thrown = None\<rparr>"
  by (simp add: handleAddExpense_def)

lemma handleAddExpense_rangeError:
  "\<not> incomplete s \<Longrightarrow> newExpense e s = Inl err \<Longrightarrow>
   handleAddExpense e s = \<lparr>after = s, dispatched = [], thrown = Some err\<rparr>"
  by (simp add: handleAddExpense_def)

lemma handleAddExpense_throws:
  "\<not> incomplete s \<Longrightarrow> newExpense e s = Inr x \<Longrightarrow> dispatchThrows e (AddExpense x) \<Longrightarrow>
   handleAddExpense e s =
     \<lparr>after = showFeedback ''Failed to add expense'' False s,
      dispatched = [AddExpense x], thrown = None\<rparr>"
  by (simp add: handleAddExpense_def)

lemma handleAddExpense_succeeds:
  "\<not> incomplete s \<Longrightarrow> newExpense e s = Inr x \<Longrightarrow> \<not> dispatchThrows e (AddExpense x) \<Longrightarrow>
   handleAddExpense e s =
     \<lparr>after = resetForm (showFeedback ''Expense added successfully'' True s),
      dispatched = [AddExpense x], thrown = None\<rparr>"
  by (simp add: handleAddExpense_def)

lemma handleAddExpense_dispatched:
  assumes "\<not> incomplete s" and "newExpense e s = Inr x"
  shows "dispatched (handleAddExpense e s) = [AddExpense x] \<and>
         thrown (handleAddExpense e s) = None"
proof (cases "dispatchThrows e (AddExpense x)")
  case True
  with assms show ?thesis
    by (simp add: handleAddExpense_throws)
next
  case False
  with assms show ?thesis
    by (simp add: handleAddExpense_succeeds)
qed

lemma newExpense_valid_date:
  "category s \<noteq> [] \<Longrightarrow> paymentMethod s \<noteq> [] \<Longrightarrow> group s \<noteq> [] \<Longrightarrow>
   selectedDate s = None \<or> selectedDate s = Some (Date t) \<Longrightarrow>
   newExpense e s =
     Inr \<lparr>expense_id = newId e,
          expense_amount = parseFloat e (amount s),
          expense_category = hd (category s),
          expense_description = description s,
          expense_date = toISOString e (if selectedDate s = None then newDate e else t),
          expense_paymentMethod = hd (paymentMethod s),
          expense_group = hd (group s)\<rparr>"
  by (auto simp: newExpense_def Date_toISOString_def hd_conv_nth)

subsection \<open>Validation failure\<close>

text \<open>
  Claim C1. When the amount text, the category selection, the description text, the
  payment-method selection or the group selection is empty, the submit handler calls
  \<^verbatim>\<open>dispatch\<close> not at all, shows the failure message "Please fill out all fields", and
  leaves the six form fields as they were: the state after the call is the state
  before it with the three feedback variables set. No error leaves the handler.
\<close>

theorem submit_incomplete_rejected:
  assumes "amount s = [] \<or> category s = [] \<or> description s = [] \<or>
           paymentMethod s = [] \<or> group s = []"
  shows "dispatched (handleAddExpense e s) = [] \<and>
         thrown (handleAddExpense e s) = None \<and>
         feedbackMessage (after (handleAddExpense e s)) = ''Please fill out all fields'' \<and>
         snackbarSuccess (after (handleAddExpense e s)) = False \<and>
         isSnackbarVisible (after (handleAddExpense e s)) = True \<and>
         amount (after (handleAddExpense e s)) = amount s \<and>
         category (after (handleAddExpense e s)) = category s \<and>
         description (after (handleAddExpense e s)) = description s \<and>
         selectedDate (after (handleAddExpense e s)) = selectedDate s \<and>
         paymentMethod (after (handleAddExpense e s)) = paymentMethod s \<and>
         group (after (handleAddExpense e s)) = group s \<and>
         after (handleAddExpense e s) =
           s\<lparr>feedbackMessage := ''Please fill out all fields'',
             snackbarSuccess := False, isSnackbarVisible := True\<rparr>"
proof -
  from assms have "incomplete s"
    by (auto simp: incomplete_def)
  then have "handleAddExpense e s =
      \<lparr>after = showFeedback ''Please fill out all fields'' False s,
       dispatched = [], thrown = None\<rparr>"
    by (rule handleAddExpense_incomplete)
  then show ?thesis
    by (simp add: showFeedback_def)
qed

theorem submit_incomplete_rejected_witness:
  "(let e = \<lparr>parseFloat = (\<lambda>t. if t = ''12.50'' then Finite (25 / 2) else NaN),
             toISOString = (\<lambda>t. if t = 1714557600000 then ''2024-05-01T10:00:00.000Z''
                                 else ''1970-01-01T00:00:00.000Z''),
             generateUUID = sampleUUID, expenses = [], newDate = 1714557600000,
             dispatchThrows = (\<lambda>a. False)\<rparr>;
        s = initialScreen\<lparr>amount := ''12.50'', category := [''food''],
              description := ''lunch'', paymentMethod := [''cash'']\<rparr>
    in group s = [] \<and>
       dispatched (handleAddExpense e s) = [] \<and>
       feedbackMessage (after (handleAddExpense e s)) = ''Please fill out all fields'' \<and>
       snackbarSuccess (after (handleAddExpense e s)) = False \<and>
       amount (after (handleAddExpense e s)) = ''12.50'' \<and>
       category (after (handleAddExpense e s)) = [''food''] \<and>
       description (after (handleAddExpense e s)) = ''lunch'' \<and>
       selectedDate (after (handleAddExpense e s)) = None \<and>
       paymentMethod (after (handleAddExpense e s)) = [''cash''] \<and>
       group (after (handleAddExpense e s)) = [])"
proof -
  define e where "e = \<lparr>parseFloat = (\<lambda>t. if t = ''12.50'' then Finite (25 / 2) else NaN),
             toISOString = (\<lambda>t::instant. if t = 1714557600000 then ''2024-05-01T10:00:00.000Z''
                                 else ''1970-01-01T00:00:00.000Z''),
             generateUUID = sampleUUID, expenses = [], newDate = 1714557600000,
             dispatchThrows = (\<lambda>a. False)\<rparr>"
  define s where "s = initialScreen\<lparr>amount := ''12.50'', category := [''food''],
              description := ''lunch'', paymentMethod := [''cash'']\<rparr>"
  have g: "group s = []"
    by (simp add: s_def initialScreen_def)
  then have h: "amount s = [] \<or> category s = [] \<or> description s = [] \<or>
           paymentMethod s = [] \<or> group s = []"
    by simp
  from submit_incomplete_rejected [OF h, of e] g show ?thesis
    unfolding Let_def e_def [symmetric] s_def [symmetric]
    by (simp add: s_def initialScreen_def)
qed

subsection \<open>The dispatched record\<close>

text \<open>
  Claim C2, as the specification states it: every form state with the five validated
  fields non-empty makes the handler dispatch exactly one record. This fails when the
  picked date is the Invalid Date: \<^verbatim>\<open>toISOString\<close> throws at line 89, outside the
  \<^verbatim>\<open>try\<close> block, and nothing is dispatched. The form is the example of the
  specification with such a date.
\<close>

theorem submit_complete_invalid_date_counterexample:
  "dispatched
     (handleAddExpense
        \<lparr>parseFloat = (\<lambda>t. if t = ''12.50'' then Finite (25 / 2) else NaN),
         toISOString = (\<lambda>t. if t = 1714557600000 then ''2024-05-01T10:00:00.000Z''
                             else ''1970-01-01T00:00:00.000Z''),
         generateUUID = sampleUUID, expenses = [], newDate = 1714557600000,
         dispatchThrows = (\<lambda>a. False)\<rparr>
        (initialScreen\<lparr>amount := ''12.50'', category := [''food''],
           description := ''lunch'', selectedDate := Some InvalidDate,
           paymentMethod := [''cash''], group := [''g1'']\<rparr>)) = [] \<and>
   thrown
     (handleAddExpense
        \<lparr>parseFloat = (\<lambda>t. if t = ''12.50'' then Finite (25 / 2) else NaN),
         toISOString = (\<lambda>t. if t = 1714557600000 then ''2024-05-01T10:00:00.000Z''
                             else ''1970-01-01T00:00:00.000Z''),
         generateUUID = sampleUUID, expenses = [], newDate = 1714557600000,
         dispatchThrows = (\<lambda>a. False)\<rparr>
        (initialScreen\<lparr>amount := ''12.50'', category := [''food''],
           description := ''lunch'', selectedDate := Some InvalidDate,
           paymentMethod := [''cash''], group := [''g1'']\<rparr>)) = Some RangeError"
  by (simp add: handleAddExpense_def incomplete_def newExpense_def Date_toISOString_def
      initialScreen_def)

text \<open>
  Claim C2, amended. When the five validated fields are non-empty and the picked date,
  if one is set, is a valid date (with time value \<open>t\<close>), the submit handler hands exactly
  one action to \<^verbatim>\<open>dispatch\<close>, the \<^verbatim>\<open>addExpense\<close> of one record, and no error leaves
  it. The amount of the record is what \<^verbatim>\<open>parseFloat\<close> makes of the amount text; its
  category, payment method and group are the first elements of the three selection
  lists; its description is the entered text; its date is the ISO string of the picked
  date when one is set and of the current instant otherwise; its id is the string that
  \<^verbatim>\<open>generateUUID\<close> returned for this submission, which is non-empty and is the id of
  no record that the store holds.
\<close>

theorem submit_complete_dispatches_record:
  assumes "amount s \<noteq> []" and "category s \<noteq> []" and "description s \<noteq> []"
    and "paymentMethod s \<noteq> []" and "group s \<noteq> []"
    and "selectedDate s = None \<or> selectedDate s = Some (Date t)"
  shows "dispatched (handleAddExpense e s) =
           [AddExpense
              \<lparr>expense_id = newId e,
               expense_amount = parseFloat e (amount s),
               expense_category = hd (category s),
               expense_description = description s,
               expense_date =
                 toISOString e (if selectedDate s = None then newDate e else t),
               expense_paymentMethod = hd (paymentMethod s),
               expense_group = hd (group s)\<rparr>] \<and>
         thrown (handleAddExpense e s) = None \<and>
         newId e \<noteq> [] \<and> newId e \<notin> expense_id ` set (expenses e)"
proof -
  from assms have "\<not> incomplete s"
    by (simp add: complete_not_incomplete)
  moreover from assms(2,4,5,6) have "newExpense e s =
     Inr \<lparr>expense_id = newId e,
          expense_amount = parseFloat e (amount s),
          expense_category = hd (category s),
          expense_description = description s,
          expense_date = toISOString e (if selectedDate s = None then newDate e else t),
          expense_paymentMethod = hd (paymentMethod s),
          expense_group = hd (group s)\<rparr>"
    by (rule newExpense_valid_date)
  ultimately show ?thesis
    by (simp add: handleAddExpense_dispatched newId_fresh)
qed

text \<open>
  The example of the specification: amount "12.50", category food, description lunch,
  payment method cash, group g1, no date picked, one record with id e0 in the store.
\<close>

theorem submit_complete_dispatches_record_witness:
  "(let e = \<lparr>parseFloat = (\<lambda>t. if t = ''12.50'' then Finite (25 / 2) else NaN),
             toISOString = (\<lambda>t. if t = 1714557600000 then ''2024-05-01T10:00:00.000Z''
                                 else ''1970-01-01T00:00:00.000Z''),
             generateUUID = sampleUUID,
             expenses =
               [\<lparr>expense_id = ''e0'', expense_amount = Finite 3,
                 expense_category = ''food'', expense_description = ''tea'',
                 expense_date = ''1970-01-01T00:00:00.000Z'',
                 expense_paymentMethod = ''cash'', expense_group = ''g1''\<rparr>],
             newDate = 1714557600000,
             dispatchThrows = (\<lambda>a. False)\<rparr>;
        s = initialScreen\<lparr>amount := ''12.50'', category := [''food''],
              description := ''lunch'', paymentMethod := [''cash''], group := [''g1'']\<rparr>
    in amount s \<noteq> [] \<and> category s \<noteq> [] \<and> description s \<noteq> [] \<and>
       paymentMethod s \<noteq> [] \<and> group s \<noteq> [] \<and> selectedDate s = None \<and>
       dispatched (handleAddExpense e s) =
         [AddExpense
            \<lparr>expense_id = ''0e0'', expense_amount = Finite (25 / 2),
             expense_category = ''food'', expense_description = ''lunch'',
             expense_date = ''2024-05-01T10:00:00.000Z'',
             expense_paymentMethod = ''cash'', expense_group = ''g1''\<rparr>] \<and>
       thrown (handleAddExpense e s) = None)"
proof -
  define e where "e = \<lparr>parseFloat = (\<lambda>t. if t = ''12.50'' then Finite (25 / 2) else NaN),
             toISOString = (\<lambda>t::instant. if t = 1714557600000 then ''2024-05-01T10:00:00.000Z''
                                 else ''1970-01-01T00:00:00.000Z''),
             generateUUID = sampleUUID,
             expenses =
               [\<lparr>expense_id = ''e0'', expense_amount = Finite 3,
                 expense_category = ''food'', expense_description = ''tea'',
                 expense_date = ''1970-01-01T00:00:00.000Z'',
                 expense_paymentMethod = ''cash'', expense_group = ''g1''\<rparr>],
             newDate = 1714557600000,
             dispatchThrows = (\<lambda>a. False)\<rparr>"
  define s where "s = initialScreen\<lparr>amount := ''12.50'', category := [''food''],
              description := ''lunch'', paymentMethod := [''cash''], group := [''g1'']\<rparr>"
  have h: "amount s \<noteq> []" "category s \<noteq> []" "description s \<noteq> []"
    "paymentMethod s \<noteq> []" "group s \<noteq> []"
    by (simp_all add: s_def initialScreen_def)
  have n: "selectedDate s = None"
    by (simp add: s_def initialScreen_def)
  then have d: "selectedDate s = None \<or> selectedDate s = Some (Date 0)"
    by simp
  from submit_complete_dispatches_record [OF h d, of e] h n show ?thesis
    unfolding Let_def e_def [symmetric] s_def [symmetric]
    by (simp add: s_def e_def initialScreen_def newId_def Rep_sampleUUID)
qed

subsection \<open>Dispatch failure\<close>

text \<open>
  Claim C3. When the submission reaches \<^verbatim>\<open>dispatch\<close> (the five validated fields are
  non-empty and the record \<open>x\<close> was built) and \<^verbatim>\<open>dispatch\<close> throws, the handler shows
  the failure message "Failed to add expense" and the six form fields (amount,
  category, description, selectedDate, paymentMethod, group) keep the values they had
  before the call: nothing is reset.
\<close>

theorem submit_dispatch_throws_keeps_form:
  assumes "amount s \<noteq> []" and "category s \<noteq> []" and "description s \<noteq> []"
    and "paymentMethod s \<noteq> []" and "group s \<noteq> []"
    and "newExpense e s = Inr x"
    and "dispatchThrows e (AddExpense x)"
  shows "feedbackMessage (after (handleAddExpense e s)) = ''Failed to add expense'' \<and>
         snackbarSuccess (after (handleAddExpense e s)) = False \<and>
         isSnackbarVisible (after (handleAddExpense e s)) = True \<and>
         amount (after (handleAddExpense e s)) = amount s \<and>
         category (after (handleAddExpense e s)) = category s \<and>
         description (after (handleAddExpense e s)) = description s \<and>
         selectedDate (after (handleAddExpense e s)) = selectedDate s \<and>
         paymentMethod (after (handleAddExpense e s)) = paymentMethod s \<and>
         group (after (handleAddExpense e s)) = group s \<and>
         after (handleAddExpense e s) =
           s\<lparr>feedbackMessage := ''Failed to add expense'',
             snackbarSuccess := False, isSnackbarVisible := True\<rparr>"
proof -
  from assms have "\<not> incomplete s"
    by (simp add: complete_not_incomplete)
  with assms have "handleAddExpense e s =
      \<lparr>after = showFeedback ''Failed to add expense'' False s,
       dispatched = [AddExpense x], thrown = None\<rparr>"
    by (simp add: handleAddExpense_throws)
  then show ?thesis
    by (simp add: showFeedback_def)
qed

theorem submit_dispatch_throws_keeps_form_witness:
  "(let e = \<lparr>parseFloat = (\<lambda>t. if t = ''12.50'' then Finite (25 / 2) else NaN),
             toISOString = (\<lambda>t. if t = 1714557600000 then ''2024-05-01T10:00:00.000Z''
                                 else ''1970-01-01T00:00:00.000Z''),
             generateUUID = sampleUUID, expenses = [], newDate = 1714557600000,
             dispatchThrows = (\<lambda>a. True)\<rparr>;
        s = initialScreen\<lparr>amount := ''12.50'', category := [''food''],
              description := ''lunch'', selectedDate := Some (Date 0),
              paymentMethod := [''cash''], group := [''g1'']\<rparr>;
        x = \<lparr>expense_id = ''0'', expense_amount = Finite (25 / 2),
             expense_category = ''food'', expense_description = ''lunch'',
             expense_date = ''1970-01-01T00:00:00.000Z'',
             expense_paymentMethod = ''cash'', expense_group = ''g1''\<rparr>
    in amount s \<noteq> [] \<and> category s \<noteq> [] \<and> description s \<noteq> [] \<and>
       paymentMethod s \<noteq> [] \<and> group s \<noteq> [] \<and>
       newExpense e s = Inr x \<and>
       dispatchThrows e (AddExpense x) \<and>
       feedbackMessage (after (handleAddExpense e s)) = ''Failed to add expense'' \<and>
       snackbarSuccess (after (handleAddExpense e s)) = False \<and>
       amount (after (handleAddExpense e s)) = ''12.50'' \<and>
       category (after (handleAddExpense e s)) = [''food''] \<and>
       description (after (handleAddExpense e s)) = ''lunch'' \<and>
       selectedDate (after (handleAddExpense e s)) = Some (Date 0) \<and>
       paymentMethod (after (handleAddExpense e s)) = [''cash''] \<and>
       group (after (handleAddExpense e s)) = [''g1''])"
proof -
  define e where "e = \<lparr>parseFloat = (\<lambda>t. if t = ''12.50'' then Finite (25 / 2) else NaN),
             toISOString = (\<lambda>t::instant. if t = 1714557600000 then ''2024-05-01T10:00:00.000Z''
                                 else ''1970-01-01T00:00:00.000Z''),
             generateUUID = sampleUUID, expenses = [], newDate = 1714557600000,
             dispatchThrows = (\<lambda>a. True)\<rparr>"
  define s where "s = initialScreen\<lparr>amount := ''12.50'', category := [''food''],
              description := ''lunch'', selectedDate := Some (Date 0),
              paymentMethod := [''cash''], group := [''g1'']\<rparr>"
  define x where "x = \<lparr>expense_id = ''0'', expense_amount = Finite (25 / 2),
             expense_category = ''food'', expense_description = ''lunch'',
             expense_date = ''1970-01-01T00:00:00.000Z'',
             expense_paymentMethod = ''cash'', expense_group = ''g1''\<rparr>"
  have h: "amount s \<noteq> []" "category s \<noteq> []" "description s \<noteq> []"
    "paymentMethod s \<noteq> []" "group s \<noteq> []"
    by (simp_all add: s_def initialScreen_def)
  have n: "newExpense e s = Inr x"
    by (simp add: newExpense_def Date_toISOString_def newId_def Rep_sampleUUID
        e_def s_def x_def initialScreen_def)
  have d: "dispatchThrows e (AddExpense x)"
    by (simp add: e_def)
  from submit_dispatch_throws_keeps_form [OF h n d] h n d show ?thesis
    unfolding Let_def e_def [symmetric] s_def [symmetric] x_def [symmetric]
    by (simp add: s_def initialScreen_def)
qed

subsection \<open>Success\<close>

text \<open>
  Claim C5. When the submission reaches \<^verbatim>\<open>dispatch\<close> (the five validated fields are
  non-empty and the record \<open>x\<close> was built) and \<^verbatim>\<open>dispatch\<close> does not throw, the
  handler shows the success message "Expense added successfully" and resets every
  field: the amount and the description to the empty text, the category and
  payment-method selections to the empty list, the picked date to undefined, and the
  group selection to the id of the first loaded group when groups are loaded, to the
  empty list when none is.
\<close>

theorem submit_success_resets_form:
  assumes "amount s \<noteq> []" and "category s \<noteq> []" and "description s \<noteq> []"
    and "paymentMethod s \<noteq> []" and "group s \<noteq> []"
    and "newExpense e s = Inr x"
    and "\<not> dispatchThrows e (AddExpense x)"
  shows "feedbackMessage (after (handleAddExpense e s)) = ''Expense added successfully'' \<and>
         snackbarSuccess (after (handleAddExpense e s)) = True \<and>
         isSnackbarVisible (after (handleAddExpense e s)) = True \<and>
         amount (after (handleAddExpense e s)) = [] \<and>
         category (after (handleAddExpense e s)) = [] \<and>
         description (after (handleAddExpense e s)) = [] \<and>
         selectedDate (after (handleAddExpense e s)) = None \<and>
         paymentMethod (after (handleAddExpense e s)) = [] \<and>
         group (after (handleAddExpense e s)) =
           (case availableGroups s of [] \<Rightarrow> [] | g # gs \<Rightarrow> [item_id g])"
proof -
  from assms have "\<not> incomplete s"
    by (simp add: complete_not_incomplete)
  with assms have "handleAddExpense e s =
      \<lparr>after = resetForm (showFeedback ''Expense added successfully'' True s),
       dispatched = [AddExpense x], thrown = None\<rparr>"
    by (simp add: handleAddExpense_succeeds)
  then show ?thesis
    by (simp add: showFeedback_def resetForm_def split: list.split)
qed

theorem submit_success_resets_form_witness:
  "(let e = \<lparr>parseFloat = (\<lambda>t. if t = ''12.50'' then Finite (25 / 2) else NaN),
             toISOString = (\<lambda>t. if t = 1714557600000 then ''2024-05-01T10:00:00.000Z''
                                 else ''1970-01-01T00:00:00.000Z''),
             generateUUID = sampleUUID, expenses = [], newDate = 1714557600000,
             dispatchThrows = (\<lambda>a. False)\<rparr>;
        s = initialScreen\<lparr>amount := ''12.50'', category := [''food''],
              description := ''lunch'', selectedDate := Some (Date 0),
              paymentMethod := [''cash''], group := [''g2''],
              availableGroups := [\<lparr>item_id = ''g1'', item_name = ''Home''\<rparr>,
                                  \<lparr>item_id = ''g2'', item_name = ''Trip''\<rparr>]\<rparr>;
        x = \<lparr>expense_id = ''0'', expense_amount = Finite (25 / 2),
             expense_category = ''food'', expense_description = ''lunch'',
             expense_date = ''1970-01-01T00:00:00.000Z'',
             expense_paymentMethod = ''cash'', expense_group = ''g2''\<rparr>
    in amount s \<noteq> [] \<and> category s \<noteq> [] \<and> description s \<noteq> [] \<and>
       paymentMethod s \<noteq> [] \<and> group s \<noteq> [] \<and>
       newExpense e s = Inr x \<and>
       \<not> dispatchThrows e (AddExpense x) \<and>
       feedbackMessage (after (handleAddExpense e s)) = ''Expense added successfully'' \<and>
       snackbarSuccess (after (handleAddExpense e s)) = True \<and>
       amount (after (handleAddExpense e s)) = [] \<and>
       category (after (handleAddExpense e s)) = [] \<and>
       description (after (handleAddExpense e s)) = [] \<and>
       selectedDate (after (handleAddExpense e s)) = None \<and>
       paymentMethod (after (handleAddExpense e s)) = [] \<and>
       group (after (handleAddExpense e s)) = [''g1''])"
proof -
  define e where "e = \<lparr>parseFloat = (\<lambda>t. if t = ''12.50'' then Finite (25 / 2) else NaN),
             toISOString = (\<lambda>t::instant. if t = 1714557600000 then ''2024-05-01T10:00:00.000Z''
                                 else ''1970-01-01T00:00:00.000Z''),
             generateUUID = sampleUUID, expenses = [], newDate = 1714557600000,
             dispatchThrows = (\<lambda>a. False)\<rparr>"
  define s where "s = initialScreen\<lparr>amount := ''12.50'', category := [''food''],
              description := ''lunch'', selectedDate := Some (Date 0),
              paymentMethod := [''cash''], group := [''g2''],
              availableGroups := [\<lparr>item_id = ''g1'', item_name = ''Home''\<rparr>,
                                  \<lparr>item_id = ''g2'', item_name = ''Trip''\<rparr>]\<rparr>"
  define x where "x = \<lparr>expense_id = ''0'', expense_amount = Finite (25 / 2),
             expense_category = ''food'', expense_description = ''lunch'',
             expense_date = ''1970-01-01T00:00:00.000Z'',
             expense_paymentMethod = ''cash'', expense_group = ''g2''\<rparr>"
  have h: "amount s \<noteq> []" "category s \<noteq> []" "description s \<noteq> []"
    "paymentMethod s \<noteq> []" "group s \<noteq> []"
    by (simp_all add: s_def initialScreen_def)
  have n: "newExpense e s = Inr x"
    by (simp add: newExpense_def Date_toISOString_def newId_def Rep_sampleUUID
        e_def s_def x_def initialScreen_def)
  have d: "\<not> dispatchThrows e (AddExpense x)"
    by (simp add: e_def)
  from submit_success_resets_form [OF h n d] h n d show ?thesis
    unfolding Let_def e_def [symmetric] s_def [symmetric] x_def [symmetric]
    by (simp add: s_def initialScreen_def)
qed

subsection \<open>An amount that is not a number\<close>

text \<open>
  Claim C9, as the specification states it: every form state whose amount text is
  non-empty and not parseable, the other validated fields being non-empty, makes the
  handler dispatch a record. This fails when the picked date is the Invalid Date:
  line 89 throws before \<^verbatim>\<open>dispatch\<close> is reached, and nothing is dispatched.
\<close>

theorem submit_unparseable_invalid_date_counterexample:
  "parseFloat
     \<lparr>parseFloat = (\<lambda>t. if t = ''12.50'' then Finite (25 / 2) else NaN),
      toISOString = (\<lambda>t. if t = 1714557600000 then ''2024-05-01T10:00:00.000Z''
                          else ''1970-01-01T00:00:00.000Z''),
      generateUUID = sampleUUID, expenses = [], newDate = 1714557600000,
      dispatchThrows = (\<lambda>a. False)\<rparr> ''abc'' = NaN \<and>
   dispatched
     (handleAddExpense
        \<lparr>parseFloat = (\<lambda>t. if t = ''12.50'' then Finite (25 / 2) else NaN),
         toISOString = (\<lambda>t. if t = 1714557600000 then ''2024-05-01T10:00:00.000Z''
                             else ''1970-01-01T00:00:00.000Z''),
         generateUUID = sampleUUID, expenses = [], newDate = 1714557600000,
         dispatchThrows = (\<lambda>a. False)\<rparr>
        (initialScreen\<lparr>amount := ''abc'', category := [''food''],
           description := ''lunch'', selectedDate := Some InvalidDate,
           paymentMethod := [''cash''], group := [''g1'']\<rparr>)) = []"
  by (simp add: handleAddExpense_def incomplete_def newExpense_def Date_toISOString_def
      initialScreen_def)

text \<open>
  Claim C9, amended. The guard looks at the amount text only for emptiness. When the
  text is non-empty and \<^verbatim>\<open>parseFloat\<close> makes not-a-number of it, the other four
  validated fields are non-empty and the picked date, if one is set, is a valid date
  (with time value \<open>t\<close>), the handler still hands one record to \<^verbatim>\<open>dispatch\<close>, and the
  amount of that record is not-a-number: what \<^verbatim>\<open>parseFloat\<close> returns is passed on, with
  no check that it is a number or positive.
\<close>

theorem submit_unparseable_amount_dispatches_nan:
  assumes "amount s \<noteq> []" and "category s \<noteq> []" and "description s \<noteq> []"
    and "paymentMethod s \<noteq> []" and "group s \<noteq> []"
    and "parseFloat e (amount s) = NaN"
    and "selectedDate s = None \<or> selectedDate s = Some (Date t)"
  shows "dispatched (handleAddExpense e s) =
           [AddExpense
              \<lparr>expense_id = newId e,
               expense_amount = NaN,
               expense_category = hd (category s),
               expense_description = description s,
               expense_date =
                 toISOString e (if selectedDate s = None then newDate e else t),
               expense_paymentMethod = hd (paymentMethod s),
               expense_group = hd (group s)\<rparr>]"
proof -
  from assms have "\<not> incomplete s"
    by (simp add: complete_not_incomplete)
  moreover from assms(2,4,5,7) have "newExpense e s =
     Inr \<lparr>expense_id = newId e,
          expense_amount = parseFloat e (amount s),
          expense_category = hd (category s),
          expense_description = description s,
          expense_date = toISOString e (if selectedDate s = None then newDate e else t),
          expense_paymentMethod = hd (paymentMethod s),
          expense_group = hd (group s)\<rparr>"
    by (rule newExpense_valid_date)
  ultimately show ?thesis
    using assms(6) by (simp add: handleAddExpense_dispatched)
qed

theorem submit_unparseable_amount_dispatches_nan_witness:
  "(let e = \<lparr>parseFloat = (\<lambda>t. if t = ''12.50'' then Finite (25 / 2) else NaN),
             toISOString = (\<lambda>t. if t = 1714557600000 then ''2024-05-01T10:00:00.000Z''
                                 else ''1970-01-01T00:00:00.000Z''),
             generateUUID = sampleUUID, expenses = [], newDate = 1714557600000,
             dispatchThrows = (\<lambda>a. False)\<rparr>;
        s = initialScreen\<lparr>amount := ''abc'', category := [''food''],
              description := ''lunch'', selectedDate := Some (Date 0),
              paymentMethod := [''cash''], group := [''g1'']\<rparr>
    in amount s \<noteq> [] \<and> category s \<noteq> [] \<and> description s \<noteq> [] \<and>
       paymentMethod s \<noteq> [] \<and> group s \<noteq> [] \<and>
       parseFloat e (amount s) = NaN \<and>
       selectedDate s = Some (Date 0) \<and>
       dispatched (handleAddExpense e s) =
         [AddExpense
            \<lparr>expense_id = ''0'', expense_amount = NaN,
             expense_category = ''food'', expense_description = ''lunch'',
             expense_date = ''1970-01-01T00:00:00.000Z'',
             expense_paymentMethod = ''cash'', expense_group = ''g1''\<rparr>])"
proof -
  define e where "e = \<lparr>parseFloat = (\<lambda>t. if t = ''12.50'' then Finite (25 / 2) else NaN),
             toISOString = (\<lambda>t::instant. if t = 1714557600000 then ''2024-05-01T10:00:00.000Z''
                                 else ''1970-01-01T00:00:00.000Z''),
             generateUUID = sampleUUID, expenses = [], newDate = 1714557600000,
             dispatchThrows = (\<lambda>a. False)\<rparr>"
  define s where "s = initialScreen\<lparr>amount := ''abc'', category := [''food''],
              description := ''lunch'', selectedDate := Some (Date 0),
              paymentMethod := [''cash''], group := [''g1'']\<rparr>"
  have h: "amount s \<noteq> []" "category s \<noteq> []" "description s \<noteq> []"
    "paymentMethod s \<noteq> []" "group s \<noteq> []"
    by (simp_all add: s_def initialScreen_def)
  have n: "parseFloat e (amount s) = NaN"
    by (simp add: e_def s_def initialScreen_def)
  have p: "selectedDate s = Some (Date 0)"
    by (simp add: s_def initialScreen_def)
  then have d: "selectedDate s = None \<or> selectedDate s = Some (Date 0)"
    by simp
  from submit_unparseable_amount_dispatches_nan [OF h n d] h n p show ?thesis
    unfolding Let_def e_def [symmetric] s_def [symmetric]
    by (simp add: s_def e_def initialScreen_def newId_def Rep_sampleUUID)
qed

subsection \<open>The option lists are not touched by a submission\<close>

text \<open>
  Claim C10. However a submission ends (validation failure, a throwing
  \<^verbatim>\<open>dispatch\<close>, success, or an error that leaves the handler), the lists of available
  groups, available categories and available payment methods after the call are the
  lists before the call.
\<close>

theorem submit_keeps_option_lists:
  "availableGroups (after (handleAddExpense e s)) = availableGroups s \<and>
   availableCategories (after (handleAddExpense e s)) = availableCategories s \<and>
   availablePaymentMethods (after (handleAddExpense e s)) = availablePaymentMethods s"
  by (simp add: handleAddExpense_def showFeedback_def resetForm_def Let_def
      split: sum.split)

subsection \<open>Loading the groups\<close>

text \<open>
  Claim C6. A fulfilled group fetch sets the list of available groups to the fetched
  groups in their order, each as the pair of its id and its name, and, when that list
  is non-empty, sets the group selection to the id of its first entry (an empty result
  leaves the selection alone); nothing is dispatched and no other state variable
  changes. A rejected fetch dispatches one error toast, "Failed to load groups", and
  leaves the whole state, the list of available groups and the group selection
  included, as it was.
\<close>

theorem loadGroups_effect:
  "loadGroups (Inr gs) s =
     (s\<lparr>availableGroups :=
          map (\<lambda>g. \<lparr>item_id = item_id g, item_name = item_name g\<rparr>) gs,
        group := (case gs of [] \<Rightarrow> group s | g # rest \<Rightarrow> [item_id g])\<rparr>, []) \<and>
   availableGroups (fst (loadGroups (Inr gs) s)) =
     map (\<lambda>g. \<lparr>item_id = item_id g, item_name = item_name g\<rparr>) gs \<and>
   map item_id (availableGroups (fst (loadGroups (Inr gs) s))) = map item_id gs \<and>
   map item_name (availableGroups (fst (loadGroups (Inr gs) s))) = map item_name gs \<and>
   group (fst (loadGroups (Inr gs) s)) =
     (case gs of [] \<Rightarrow> group s | g # rest \<Rightarrow> [item_id g]) \<and>
   loadGroups (Inl err) s = (s, [ShowToast ''Failed to load groups'' ''error'']) \<and>
   availableGroups (fst (loadGroups (Inl err) s)) = availableGroups s \<and>
   group (fst (loadGroups (Inl err) s)) = group s"
proof (cases gs)
  case Nil
  then show ?thesis
    by (simp add: loadGroups_def)
next
  case (Cons g rest)
  then show ?thesis
    by (simp add: loadGroups_def project_def comp_def)
qed

subsection \<open>Loading the settings\<close>

lemma filter_map_spec_visible:
  "\<forall>x\<in>set xs. m (item_id x) = None \<longrightarrow> item_id x \<notin> set objectPrototypeMembers \<Longrightarrow>
   map project (filter (\<lambda>x. isVisible m (item_id x)) xs) = spec_visible m xs"
  by (induction xs) (auto simp: isVisible_def project_def split: option.split bool.split)

lemma set_spec_visible:
  "set (spec_visible m xs) =
     (\<lambda>x. \<lparr>item_id = item_id x, item_name = item_name x\<rparr>) `
       {x \<in> set xs. m (item_id x) = Some True}"
  by (induction xs) (auto split: option.split bool.split)

lemma loadSettings_categories:
  "availableCategories (fst (loadSettings cs ps (Inr vc) r s)) =
     map project (filter (\<lambda>x. isVisible vc (item_id x)) cs)"
  by (cases r) (simp_all add: loadSettings_def)

lemma loadSettings_fulfilled:
  "loadSettings cs ps (Inr vc) (Inr vp) s =
     (s\<lparr>availableCategories := map project (filter (\<lambda>x. isVisible vc (item_id x)) cs),
        availablePaymentMethods := map project (filter (\<lambda>x. isVisible vp (item_id x)) ps)\<rparr>,
      [])"
  by (simp add: loadSettings_def)

text \<open>
  Claim C7, as the specification states it: for every visibility mapping, an id that
  the mapping omits is treated as not visible and its entry is filtered out. This
  fails for an id that names a member every object inherits: the mapping below has no
  key \<^verbatim>\<open>constructor\<close>, yet \<^verbatim>\<open>visible[''constructor'']\<close> is the inherited function, which is
  truthy, and the entry stays in the list.
\<close>

theorem loadSettings_omitted_id_counterexample:
  "availableCategories
     (fst (loadSettings
        [\<lparr>item_id = ''food'', item_name = ''Food''\<rparr>,
         \<lparr>item_id = ''constructor'', item_name = ''Construction''\<rparr>]
        [\<lparr>item_id = ''cash'', item_name = ''Cash''\<rparr>]
        (Inr [''food'' \<mapsto> True])
        (Inr [''cash'' \<mapsto> True] :: unit + visibility)
        initialScreen)) =
     [\<lparr>item_id = ''food'', item_name = ''Food''\<rparr>,
      \<lparr>item_id = ''constructor'', item_name = ''Construction''\<rparr>] \<and>
   [''food'' \<mapsto> True] ''constructor'' = None"
  by (simp add: loadSettings_def isVisible_def objectPrototypeMembers_def project_def
      initialScreen_def)

text \<open>
  Claim C7, amended. Let no id that a mapping omits name a member that the mapping
  object inherits from \<^verbatim>\<open>Object.prototype\<close> (such as \<^verbatim>\<open>constructor\<close> or
  \<^verbatim>\<open>toString\<close>). Then \<^verbatim>\<open>loadSettings\<close> sets the list of available categories (of
  available payment methods) to the entries of the master list whose flag in the
  mapping is true, in the order of the master list, each as the pair of its id and
  its name. An entry whose id the mapping omits is left out like one whose flag is
  false, and nothing is dispatched: the omission is no error. The category list is set
  as soon as the category mapping is there, whatever the outcome \<open>r\<close> of the
  payment-method fetch.
\<close>

theorem loadSettings_keeps_visible_entries:
  assumes "\<forall>x\<in>set cs. vc (item_id x) = None \<longrightarrow> item_id x \<notin> set objectPrototypeMembers"
    and "\<forall>x\<in>set ps. vp (item_id x) = None \<longrightarrow> item_id x \<notin> set objectPrototypeMembers"
  shows "availableCategories (fst (loadSettings cs ps (Inr vc) r s)) = spec_visible vc cs \<and>
         availablePaymentMethods (fst (loadSettings cs ps (Inr vc) (Inr vp) s)) =
           spec_visible vp ps \<and>
         set (availableCategories (fst (loadSettings cs ps (Inr vc) r s))) =
           (\<lambda>x. \<lparr>item_id = item_id x, item_name = item_name x\<rparr>) `
             {x \<in> set cs. vc (item_id x) = Some True} \<and>
         set (availablePaymentMethods (fst (loadSettings cs ps (Inr vc) (Inr vp) s))) =
           (\<lambda>x. \<lparr>item_id = item_id x, item_name = item_name x\<rparr>) `
             {x \<in> set ps. vp (item_id x) = Some True} \<and>
         snd (loadSettings cs ps (Inr vc) (Inr vp) s) = []"
proof -
  from assms(1) have c: "availableCategories (fst (loadSettings cs ps (Inr vc) r s)) =
      spec_visible vc cs"
    by (simp add: loadSettings_categories filter_map_spec_visible)
  from assms(2) have p: "availablePaymentMethods (fst (loadSettings cs ps (Inr vc) (Inr vp) s)) =
      spec_visible vp ps"
    by (simp add: loadSettings_fulfilled filter_map_spec_visible)
  have n: "snd (loadSettings cs ps (Inr vc) (Inr vp) s) = []"
    by (simp add: loadSettings_fulfilled)
  have c': "set (availableCategories (fst (loadSettings cs ps (Inr vc) r s))) =
      (\<lambda>x. \<lparr>item_id = item_id x, item_name = item_name x\<rparr>) `
        {x \<in> set cs. vc (item_id x) = Some True}"
    by (simp only: c set_spec_visible)
  have p': "set (availablePaymentMethods (fst (loadSettings cs ps (Inr vc) (Inr vp) s))) =
      (\<lambda>x. \<lparr>item_id = item_id x, item_name = item_name x\<rparr>) `
        {x \<in> set ps. vp (item_id x) = Some True}"
    by (simp only: p set_spec_visible)
  show ?thesis
    by (intro conjI c p c' p' n)
qed

text \<open>
  An instance: the mapping makes food visible, hides travel and says nothing of rent;
  only food is offered.
\<close>

theorem loadSettings_keeps_visible_entries_witness:
  "(let cs = [\<lparr>item_id = ''food'', item_name = ''Food''\<rparr>,
              \<lparr>item_id = ''travel'', item_name = ''Travel''\<rparr>,
              \<lparr>item_id = ''rent'', item_name = ''Rent''\<rparr>];
        ps = [\<lparr>item_id = ''cash'', item_name = ''Cash''\<rparr>,
              \<lparr>item_id = ''card'', item_name = ''Card''\<rparr>];
        vc = [''food'' \<mapsto> True, ''travel'' \<mapsto> False];
        vp = [''card'' \<mapsto> True];
        r = (Inr vp :: unit + visibility)
    in vc ''rent'' = None \<and> ''rent'' \<notin> set objectPrototypeMembers \<and>
       vp ''cash'' = None \<and> ''cash'' \<notin> set objectPrototypeMembers \<and>
       availableCategories (fst (loadSettings cs ps (Inr vc) r initialScreen)) =
         [\<lparr>item_id = ''food'', item_name = ''Food''\<rparr>] \<and>
       availablePaymentMethods (fst (loadSettings cs ps (Inr vc) r initialScreen)) =
         [\<lparr>item_id = ''card'', item_name = ''Card''\<rparr>] \<and>
       snd (loadSettings cs ps (Inr vc) r initialScreen) = [])"
proof -
  define cs where "cs = [\<lparr>item_id = ''food'', item_name = ''Food''\<rparr>,
              \<lparr>item_id = ''travel'', item_name = ''Travel''\<rparr>,
              \<lparr>item_id = ''rent'', item_name = ''Rent''\<rparr>]"
  define ps where "ps = [\<lparr>item_id = ''cash'', item_name = ''Cash''\<rparr>,
              \<lparr>item_id = ''card'', item_name = ''Card''\<rparr>]"
  define vc :: visibility where "vc = [''food'' \<mapsto> True, ''travel'' \<mapsto> False]"
  define vp :: visibility where "vp = [''card'' \<mapsto> True]"
  have o: "vc ''rent'' = None \<and> ''rent'' \<notin> set objectPrototypeMembers \<and>
       vp ''cash'' = None \<and> ''cash'' \<notin> set objectPrototypeMembers"
    by (simp add: vc_def vp_def objectPrototypeMembers_def)
  have h1: "\<forall>x\<in>set cs. vc (item_id x) = None \<longrightarrow> item_id x \<notin> set objectPrototypeMembers"
    by (simp add: cs_def vc_def objectPrototypeMembers_def)
  have h2: "\<forall>x\<in>set ps. vp (item_id x) = None \<longrightarrow> item_id x \<notin> set objectPrototypeMembers"
    by (simp add: ps_def vp_def objectPrototypeMembers_def)
  have v: "spec_visible vc cs = [\<lparr>item_id = ''food'', item_name = ''Food''\<rparr>] \<and>
       spec_visible vp ps = [\<lparr>item_id = ''card'', item_name = ''Card''\<rparr>]"
    by (simp add: cs_def ps_def vc_def vp_def)
  note t = loadSettings_keeps_visible_entries
         [OF h1 h2, of "Inr vp :: unit + visibility" initialScreen]
  from t have "availableCategories
      (fst (loadSettings cs ps (Inr vc) (Inr vp :: unit + visibility) initialScreen)) =
      spec_visible vc cs"
    by (rule conjunct1)
  with v have a: "availableCategories
      (fst (loadSettings cs ps (Inr vc) (Inr vp :: unit + visibility) initialScreen)) =
      [\<lparr>item_id = ''food'', item_name = ''Food''\<rparr>]"
    by simp
  from conjunct1 [OF conjunct2 [OF t]] have "availablePaymentMethods
      (fst (loadSettings cs ps (Inr vc) (Inr vp :: unit + visibility) initialScreen)) =
      spec_visible vp ps" .
  with v have b: "availablePaymentMethods
      (fst (loadSettings cs ps (Inr vc) (Inr vp :: unit + visibility) initialScreen)) =
      [\<lparr>item_id = ''card'', item_name = ''Card''\<rparr>]"
    by simp
  from conjunct2 [OF conjunct2 [OF conjunct2 [OF conjunct2 [OF t]]]]
  have c: "snd (loadSettings cs ps (Inr vc) (Inr vp :: unit + visibility) initialScreen) = []" .
  from o a b c show ?thesis
    unfolding Let_def cs_def [symmetric] ps_def [symmetric] vc_def [symmetric]
      vp_def [symmetric]
    by simp
qed

text \<open>
  Claim C4, as the specification states it: when either fetch fails, neither list is
  updated in that pass. This fails when the category fetch is fulfilled and the
  payment-method fetch is rejected: line 59 has stored the category list before line
  61 awaits the second fetch. Here the screen starts with no category and ends the
  pass with one.
\<close>

theorem loadSettings_abort_counterexample:
  "availableCategories
     (fst (loadSettings
        [\<lparr>item_id = ''food'', item_name = ''Food''\<rparr>]
        [\<lparr>item_id = ''cash'', item_name = ''Cash''\<rparr>]
        (Inr [''food'' \<mapsto> True])
        (Inl ())
        initialScreen)) \<noteq>
   availableCategories initialScreen"
  by (simp add: loadSettings_def isVisible_def project_def initialScreen_def)

text \<open>
  Claim C4, amended. A rejected category fetch ends the pass with neither list
  updated (the state is the state before) and one error toast, "Failed to load
  settings". A fulfilled category fetch followed by a rejected payment-method fetch
  ends the pass with the category list set to the visible categories, the
  payment-method list not updated, and one such toast.
\<close>

theorem loadSettings_failure:
  "loadSettings cs ps (Inl err) r s =
     (s, [ShowToast ''Failed to load settings'' ''error'']) \<and>
   loadSettings cs ps (Inr vc) (Inl err) s =
     (s\<lparr>availableCategories :=
          map project (filter (\<lambda>c. isVisible vc (item_id c)) cs)\<rparr>,
      [ShowToast ''Failed to load settings'' ''error'']) \<and>
   availablePaymentMethods (fst (loadSettings cs ps (Inr vc) (Inl err) s)) =
     availablePaymentMethods s"
  by (simp add: loadSettings_def)

text \<open>
  Claim C8. The lists that \<^verbatim>\<open>loadSettings\<close> stores depend on the master lists and the
  fetched mappings only. With the same two mappings, a second pass run on the state
  that the first pass left gives that same state, so the same two lists; and two
  passes run from any two states store the same two lists.
\<close>

theorem loadSettings_idempotent:
  "fst (loadSettings cs ps (Inr vc) (Inr vp) (fst (loadSettings cs ps (Inr vc) (Inr vp) s))) =
     fst (loadSettings cs ps (Inr vc) (Inr vp) s) \<and>
   availableCategories
     (fst (loadSettings cs ps (Inr vc) (Inr vp) (fst (loadSettings cs ps (Inr vc) (Inr vp) s)))) =
     availableCategories (fst (loadSettings cs ps (Inr vc) (Inr vp) s)) \<and>
   availablePaymentMethods
     (fst (loadSettings cs ps (Inr vc) (Inr vp) (fst (loadSettings cs ps (Inr vc) (Inr vp) s)))) =
     availablePaymentMethods (fst (loadSettings cs ps (Inr vc) (Inr vp) s)) \<and>
   availableCategories (fst (loadSettings cs ps (Inr vc) (Inr vp) s')) =
     availableCategories (fst (loadSettings cs ps (Inr vc) (Inr vp) s)) \<and>
   availablePaymentMethods (fst (loadSettings cs ps (Inr vc) (Inr vp) s')) =
     availablePaymentMethods (fst (loadSettings cs ps (Inr vc) (Inr vp) s))"
  by (simp add: loadSettings_fulfilled)

end
